theory Spec2Isabelle
  imports Main
begin

section \<open>Authentication and session lifecycle of the Enrichment backend\<close>

text \<open>
  The development embeds \<^verbatim>\<open>AuthService\<close> (backend \<^verbatim>\<open>services/auth.ts\<close>) together with the
  parts of the libraries it calls that decide its behaviour:
  \<^item> the two tables \<^verbatim>\<open>users\<close> and \<^verbatim>\<open>user_sessions\<close> of \<^verbatim>\<open>models/schema.ts\<close>, as lists of rows
    in insertion order;
  \<^item> the query conditions \<^verbatim>\<open>eq\<close> and \<^verbatim>\<open>and\<close> of drizzle-orm, with the three-valued logic of
    the SQL they render;
  \<^item> \<^verbatim>\<open>bcrypt.hash\<close> and \<^verbatim>\<open>bcrypt.compare\<close>, with the salt that every call of
    \<^verbatim>\<open>bcrypt.hash(s, rounds)\<close> draws afresh and the 72 bytes of input that bcrypt reads;
  \<^item> \<^verbatim>\<open>jwt.sign\<close> and \<^verbatim>\<open>jwt.verify\<close> of jsonwebtoken, symbolically.
  Every operation is a function from the database to a result and the database after it;
  a thrown exception is a value \<open>Inl e\<close>. Calls of the logger are left out.

  Names are the source's. Where two records of the source share a field name, or a name is
  taken already, the field carries a prefix or a suffix: \<open>user_id\<close> and \<open>session_id\<close> for the two
  \<^verbatim>\<open>id\<close> columns, \<open>exp_claim\<close>, \<open>claim_email\<close> and \<open>claim_username\<close> in the payload, \<open>cred_\<close> and
  \<open>reg_\<close> for the fields of the credentials and of the registration data, \<open>refreshTokenOf\<close> for
  the field \<^verbatim>\<open>refreshToken\<close> of a token pair; \<open>eq_sql\<close> and \<open>and_sql\<close> are drizzle's \<^verbatim>\<open>eq\<close> and
  \<^verbatim>\<open>and\<close>.
\<close>

subsection \<open>Errors\<close>

text \<open>
  \<^verbatim>\<open>new AppError(message, statusCode, details)\<close> of \<^verbatim>\<open>utils/errors.ts\<close>; the only details object
  the service builds is \<^verbatim>\<open>{ mfaRequired: true }\<close>. The other constructors are the exceptions
  of the libraries: the two error classes of jsonwebtoken (\<^verbatim>\<open>TokenExpiredError\<close> is a subclass
  of \<^verbatim>\<open>JsonWebTokenError\<close>) and a PostgreSQL error with its code. \<open>NaNExpiry\<close> marks the one
  place the model does not follow the libraries: a token lifetime that parses to \<^verbatim>\<open>NaN\<close>.
\<close>

datatype error =
    AppError string nat "(string \<times> bool) list option"
  | JsonWebTokenError string
  | TokenExpiredError
  | DbError string
  | NaNExpiry

fun is_JsonWebTokenError :: "error \<Rightarrow> bool" where
  "is_JsonWebTokenError (JsonWebTokenError m) = True"
| "is_JsonWebTokenError TokenExpiredError = True"
| "is_JsonWebTokenError e = False"

subsection \<open>Configuration and environment\<close>

text \<open>
  \<^verbatim>\<open>config.auth\<close> of \<^verbatim>\<open>config/index.ts\<close>: the values read from the process environment. The
  schema of the environment admits only secrets of at least 32 characters, so \<^verbatim>\<open>jwt.sign\<close>
  and \<^verbatim>\<open>jwt.verify\<close> never see an empty secret; the lifetimes are arbitrary strings.
\<close>

record Config =
  secret :: string
  refreshSecret :: string
  accessExpiresIn :: string
  refreshExpiresIn :: string
  issuer :: string
  audience :: string
  rounds :: nat

text \<open>
  What one call of an operation reads from outside: the clock (\<^verbatim>\<open>Date.now()\<close>, in
  milliseconds; one instant per call), the salts \<^verbatim>\<open>bcrypt.hash\<close> generates (the \<open>i\<close>-th call
  of \<^verbatim>\<open>bcrypt.hash\<close> inside the operation gets \<open>salt env i\<close>) and the identifiers
  \<^verbatim>\<open>defaultRandom()\<close> gives to inserted rows (the \<open>i\<close>-th insert gets \<open>uuid env i\<close>).
\<close>

record env =
  nowMs :: int
  salt :: "nat \<Rightarrow> nat"
  uuid :: "nat \<Rightarrow> nat"

subsection \<open>bcrypt\<close>

text \<open>
  bcrypt reads at most the first 72 bytes of its input. A digest records the cost, the salt
  and (one way) the bytes that were read. The model is symbolic: two digests are equal
  exactly when cost, salt and these bytes are. \<^verbatim>\<open>bcrypt.hash(s, rounds)\<close> draws the salt itself;
  here it is the third argument. \<^verbatim>\<open>bcrypt.compare(s, d)\<close> hashes \<open>s\<close> again with the cost and
  the salt stored in \<open>d\<close> and compares.
\<close>

datatype digest = Digest nat nat string

fun digest_rounds :: "digest \<Rightarrow> nat" where
  "digest_rounds (Digest r s x) = r"

fun digest_salt :: "digest \<Rightarrow> nat" where
  "digest_salt (Digest r s x) = s"

definition bcrypt_hash :: "string \<Rightarrow> nat \<Rightarrow> nat \<Rightarrow> digest" where
  "bcrypt_hash s r slt = Digest r slt (take 72 s)"

definition bcrypt_compare :: "string \<Rightarrow> digest \<Rightarrow> bool" where
  "bcrypt_compare s d = (bcrypt_hash s (digest_rounds d) (digest_salt d) = d)"

subsection \<open>JSON web tokens\<close>

text \<open>
  \<^verbatim>\<open>JWTPayload\<close>; the refresh payload has no \<^verbatim>\<open>email\<close> and no \<^verbatim>\<open>username\<close>. A token is its
  payload together with the secret that signed it (HS256 is deterministic, so equal payload
  and secret give the equal token); any other string is \<open>Malformed\<close>.
\<close>

record JWTPayload =
  sub :: nat
  claim_email :: "string option"
  claim_username :: "string option"
  iat :: int
  exp_claim :: int
  iss :: string
  aud :: string

datatype jwt = Signed JWTPayload string | Malformed string

definition jwt_sign :: "JWTPayload \<Rightarrow> string \<Rightarrow> jwt" where
  "jwt_sign payload key = Signed payload key"

text \<open>
  \<^verbatim>\<open>jwt.verify(token, secret)\<close> with no options: the signature is checked first, then the
  expiry, against the clock in whole seconds (\<^verbatim>\<open>clockTimestamp >= payload.exp\<close> is expired).
  Issuer and audience are not checked, since no option asks for it.
\<close>

fun jwt_verify :: "jwt \<Rightarrow> string \<Rightarrow> int \<Rightarrow> error + JWTPayload" where
  "jwt_verify (Malformed s) key now_ms = Inl (JsonWebTokenError ''jwt malformed'')"
| "jwt_verify (Signed payload k) key now_ms =
     (if k \<noteq> key then Inl (JsonWebTokenError ''invalid signature'')
      else if now_ms div 1000 \<ge> exp_claim payload then Inl TokenExpiredError
      else Inr payload)"

text \<open>
  The service hashes token strings with bcrypt, which reads their first 72 characters.
  For a token signed by \<^verbatim>\<open>jwt.sign(payload, secret)\<close> these are the 36 characters of the encoded
  header \<^verbatim>\<open>{"alg":"HS256","typ":"JWT"}\<close>, the dot, and 35 characters of the encoded payload,
  which the first 27 bytes of the payload's JSON determine. Both payloads of
  \<^verbatim>\<open>generateTokens\<close> begin with \<^verbatim>\<open>sub\<close>, so these bytes are \<^verbatim>\<open>{"sub":"\<close> and the first 19
  characters of the account's id. The id is a UUID: the model has it as the 128-bit number
  that the UUID writes in hexadecimal. All tokens of one account, access or refresh, issued
  at any time, therefore begin with the same 72 characters, and these are all the model
  needs of a token's string.
\<close>

definition hex_digit :: "nat \<Rightarrow> char" where
  "hex_digit n = ''0123456789abcdef'' ! n"

fun hex_fixed :: "nat \<Rightarrow> nat \<Rightarrow> string" where
  "hex_fixed 0 n = []"
| "hex_fixed (Suc w) n = hex_fixed w (n div 16) @ [hex_digit (n mod 16)]"

definition uuid_string :: "nat \<Rightarrow> string" where
  "uuid_string n =
     (let h = hex_fixed 32 n
      in take 8 h @ ''-'' @ take 4 (drop 8 h) @ ''-'' @ take 4 (drop 12 h) @ ''-''
         @ take 4 (drop 16 h) @ ''-'' @ drop 20 h)"

definition b64_char :: "nat \<Rightarrow> char" where
  "b64_char n = ''ABCDEFGHIJKLMNOPQRSTUVWXYZabcdefghijklmnopqrstuvwxyz0123456789-_'' ! n"

fun base64url :: "string \<Rightarrow> string" where
  "base64url (a # b # c # rest) =
     (let n = (of_char a :: nat) * 65536 + of_char b * 256 + of_char c
      in [b64_char (n div 262144), b64_char (n div 4096 mod 64),
          b64_char (n div 64 mod 64), b64_char (n mod 64)] @ base64url rest)"
| "base64url [a, b] =
     (let n = (of_char a :: nat) * 65536 + of_char b * 256
      in [b64_char (n div 262144), b64_char (n div 4096 mod 64),
          b64_char (n div 64 mod 64)])"
| "base64url [a] =
     (let n = (of_char a :: nat) * 65536
      in [b64_char (n div 262144), b64_char (n div 4096 mod 64)])"
| "base64url [] = []"

definition jwt_header :: string where
  \<open>jwt_header = ''{"alg":"HS256","typ":"JWT"}''\<close>

definition signed_first72 :: "nat \<Rightarrow> string" where
  \<open>signed_first72 uid =
     take 72 (base64url jwt_header @ ''.''
              @ base64url (take 27 (''{"sub":"'' @ uuid_string uid)))\<close>

definition jwt_first72 :: "jwt \<Rightarrow> string" where
  "jwt_first72 tok =
     (case tok of Signed payload k \<Rightarrow> signed_first72 (sub payload) | Malformed s \<Rightarrow> take 72 s)"

subsection \<open>Tables\<close>

text \<open>
  The columns of \<^verbatim>\<open>users\<close> and \<^verbatim>\<open>user_sessions\<close> the service reads or writes. A nullable column
  is an \<open>option\<close>, \<open>None\<close> being SQL's \<^verbatim>\<open>NULL\<close>. Timestamps are milliseconds.
\<close>

record user =
  user_id :: nat
  username :: string
  email :: string
  passwordHash :: digest
  displayName :: "string option"
  verified :: bool
  mfaEnabled :: bool
  deletedAt :: "int option"

record session =
  session_id :: nat
  userId :: nat
  tokenHash :: digest
  refreshTokenHash :: "digest option"
  deviceInfo :: "string option"
  ipAddress :: "string option"
  userAgent :: "string option"
  expiresAt :: int
  createdAt :: int
  lastUsedAt :: int

record db =
  users :: "user list"
  userSessions :: "session list"

text \<open>The salt of the refresh digest a session row carries, for stating properties.\<close>

definition refresh_salt :: "session \<Rightarrow> nat option" where
  "refresh_salt s = map_option digest_salt (refreshTokenHash s)"

subsection \<open>Query conditions\<close>

text \<open>
  drizzle's \<^verbatim>\<open>eq(column, value)\<close> renders \<^verbatim>\<open>column = $n\<close> with the value bound as a
  parameter, also when the value is \<^verbatim>\<open>null\<close> (drizzle has \<^verbatim>\<open>isNull\<close> for \<^verbatim>\<open>IS NULL\<close>). In SQL a
  comparison with \<^verbatim>\<open>NULL\<close> on either side is unknown, \<^verbatim>\<open>AND\<close> is three-valued, and a
  \<^verbatim>\<open>WHERE\<close> clause keeps the rows whose condition is true. A condition is a function from a row
  to \<open>bool option\<close>, \<open>None\<close> being unknown.
\<close>

type_synonym 'r cond = "'r \<Rightarrow> bool option"

definition eq_sql :: "('r \<Rightarrow> 'v option) \<Rightarrow> 'v option \<Rightarrow> 'r cond" where
  "eq_sql col v r =
     (case col r of
        None \<Rightarrow> None
      | Some a \<Rightarrow> (case v of None \<Rightarrow> None | Some b \<Rightarrow> Some (a = b)))"

definition and_sql :: "'r cond \<Rightarrow> 'r cond \<Rightarrow> 'r cond" where
  "and_sql c1 c2 r =
     (if c1 r = Some False then Some False
      else if c2 r = Some False then Some False
      else if c1 r = Some True \<and> c2 r = Some True then Some True
      else None)"

definition select_where :: "'r cond \<Rightarrow> 'r list \<Rightarrow> 'r list" where
  "select_where c rows = filter (\<lambda>r. c r = Some True) rows"

definition delete_where :: "'r cond \<Rightarrow> 'r list \<Rightarrow> 'r list" where
  "delete_where c rows = filter (\<lambda>r. c r \<noteq> Some True) rows"

text \<open>\<^verbatim>\<open>.limit(1)\<close> followed by the destructuring \<^verbatim>\<open>const [row] = ...\<close>.\<close>

definition first_row :: "'r list \<Rightarrow> 'r option" where
  "first_row rows = (case take 1 rows of [] \<Rightarrow> None | r # rs \<Rightarrow> Some r)"

text \<open>\<^verbatim>\<open>db.update(t).set(...).where(c)\<close>: every row whose condition is true is rewritten.\<close>

definition update_where :: "'r cond \<Rightarrow> ('r \<Rightarrow> 'r) \<Rightarrow> 'r list \<Rightarrow> 'r list" where
  "update_where c f rows = map (\<lambda>r. if c r = Some True then f r else r) rows"

text \<open>
  Inserts check the constraints the schema declares: the primary keys, the unique
  \<^verbatim>\<open>username\<close> and \<^verbatim>\<open>email\<close> of \<^verbatim>\<open>users\<close> (over all rows: the schema has no partial index), and
  the foreign key of \<^verbatim>\<open>user_sessions.user_id\<close>. PostgreSQL reports a violated uniqueness as
  error 23505 and a violated foreign key as 23503. The length limits of the \<^verbatim>\<open>varchar\<close>
  columns are not modelled: the values are taken to fit.
\<close>

definition insert_user :: "user \<Rightarrow> db \<Rightarrow> error + db" where
  "insert_user row st =
     (if user_id row \<in> set (map user_id (users st)) then Inl (DbError ''23505'')
      else if username row \<in> set (map username (users st)) then Inl (DbError ''23505'')
      else if email row \<in> set (map email (users st)) then Inl (DbError ''23505'')
      else Inr (st\<lparr>users := users st @ [row]\<rparr>))"

definition insert_session :: "session \<Rightarrow> db \<Rightarrow> error + db" where
  "insert_session row st =
     (if session_id row \<in> set (map session_id (userSessions st)) then Inl (DbError ''23505'')
      else if userId row \<notin> set (map user_id (users st)) then Inl (DbError ''23503'')
      else Inr (st\<lparr>userSessions := userSessions st @ [row]\<rparr>))"

subsection \<open>Token lifetimes\<close>

text \<open>
  JavaScript's \<^verbatim>\<open>parseInt(s)\<close> with no radix, on ASCII strings: leading white space is
  skipped, then an optional sign, then \<^verbatim>\<open>0x\<close> or \<^verbatim>\<open>0X\<close> switches to radix 16, then the longest
  prefix of digits is read; with no digit the result is \<^verbatim>\<open>NaN\<close>, here \<open>None\<close>. Numbers are
  exact integers (true of JavaScript below \<open>2 ^ 53\<close>).
\<close>

definition is_ws :: "char \<Rightarrow> bool" where
  "is_ws c = (of_char c \<in> set [9, 10, 11, 12, 13, 32 :: nat])"

definition digitval :: "nat \<Rightarrow> char \<Rightarrow> nat option" where
  "digitval radix c =
     (let n = (of_char c :: nat);
          d = (if 48 \<le> n \<and> n \<le> 57 then Some (n - 48)
               else if 97 \<le> n \<and> n \<le> 122 then Some (n - 87)
               else if 65 \<le> n \<and> n \<le> 90 then Some (n - 55)
               else None)
      in case d of None \<Rightarrow> None | Some v \<Rightarrow> if v < radix then Some v else None)"

fun digits_prefix :: "nat \<Rightarrow> string \<Rightarrow> nat list" where
  "digits_prefix radix [] = []"
| "digits_prefix radix (c # cs) =
     (case digitval radix c of None \<Rightarrow> [] | Some v \<Rightarrow> v # digits_prefix radix cs)"

definition parseInt :: "string \<Rightarrow> int option" where
  "parseInt str =
     (let s1 = dropWhile is_ws str;
          sign = (if take 1 s1 = ''-'' then - 1 else (1 :: int));
          s2 = (if take 1 s1 = ''-'' \<or> take 1 s1 = ''+'' then drop 1 s1 else s1);
          hex = (take 2 s2 = ''0x'' \<or> take 2 s2 = ''0X'');
          radix = (if hex then 16 else (10 :: nat));
          s3 = (if hex then drop 2 s2 else s2);
          ds = digits_prefix radix s3
      in if ds = [] then None
         else Some (sign * int (foldl (\<lambda>a d. a * radix + d) 0 ds)))"

text \<open>
  \<^verbatim>\<open>timeString.slice(-1)\<close> is the last character (the empty string when there is none),
  \<^verbatim>\<open>timeString.slice(0, -1)\<close> the rest; arithmetic on \<^verbatim>\<open>NaN\<close> gives \<^verbatim>\<open>NaN\<close>.
\<close>

definition parseTimeToSeconds :: "string \<Rightarrow> int option" where
  "parseTimeToSeconds timeString =
     (let unit = (if timeString = [] then [] else [last timeString]);
          val = parseInt (butlast timeString)
      in if unit = ''s'' then val
         else if unit = ''m'' then map_option (\<lambda>v. v * 60) val
         else if unit = ''h'' then map_option (\<lambda>v. v * 60 * 60) val
         else if unit = ''d'' then map_option (\<lambda>v. v * 60 * 60 * 24) val
         else val)"

subsection \<open>The service's interfaces\<close>

record LoginCredentials =
  cred_email :: string
  cred_password :: string
  cred_mfaCode :: "string option"

record RegisterData =
  reg_username :: string
  reg_email :: string
  reg_password :: string
  reg_displayName :: "string option"
  reg_inviteCode :: "string option"

record TokenPair =
  accessToken :: jwt
  refreshTokenOf :: jwt
  expiresIn :: int

record SessionInfo =
  si_deviceInfo :: "string option"
  si_ipAddress :: "string option"
  si_userAgent :: "string option"

text \<open>The row returned to the caller, \<^verbatim>\<open>const { passwordHash: _, ...userWithoutPassword }\<close>.\<close>

record userWithoutPassword =
  pub_id :: nat
  pub_username :: string
  pub_email :: string
  pub_displayName :: "string option"
  pub_verified :: bool
  pub_mfaEnabled :: bool
  pub_deletedAt :: "int option"

definition withoutPassword :: "user \<Rightarrow> userWithoutPassword" where
  "withoutPassword u =
     \<lparr>pub_id = user_id u, pub_username = username u, pub_email = email u,
      pub_displayName = displayName u, pub_verified = verified u,
      pub_mfaEnabled = mfaEnabled u, pub_deletedAt = deletedAt u\<rparr>"

text \<open>JavaScript's truthiness of an optional string: \<^verbatim>\<open>undefined\<close> and \<^verbatim>\<open>''\<close> are falsy.\<close>

definition truthy :: "string option \<Rightarrow> bool" where
  "truthy s = (case s of None \<Rightarrow> False | Some x \<Rightarrow> x \<noteq> [])"

definition or_default :: "string option \<Rightarrow> string \<Rightarrow> string" where
  "or_default s d = (case s of None \<Rightarrow> d | Some x \<Rightarrow> if x = [] then d else x)"

subsection \<open>AuthService\<close>

text \<open>
  \<^verbatim>\<open>generateTokens(user, sessionInfo)\<close>. The two arguments \<open>si\<close> and \<open>ui\<close> say which salts and
  which identifier of the environment this call draws: the callers have drawn the earlier
  ones. Both payloads carry the same \<^verbatim>\<open>iat\<close>; the session row expires with the refresh token.
\<close>

definition generateTokens ::
  "Config \<Rightarrow> env \<Rightarrow> nat \<Rightarrow> nat \<Rightarrow> user \<Rightarrow> SessionInfo option \<Rightarrow> db \<Rightarrow> (error + TokenPair) \<times> db" where
  "generateTokens cfg e si ui usr sessionInfo st =
     (let now = nowMs e div 1000 in
      case parseTimeToSeconds (accessExpiresIn cfg) of
        None \<Rightarrow> (Inl NaNExpiry, st)
      | Some accessExp \<Rightarrow>
         (case parseTimeToSeconds (refreshExpiresIn cfg) of
            None \<Rightarrow> (Inl NaNExpiry, st)
          | Some refreshExp \<Rightarrow>
             (let accessPayload =
                    \<lparr>sub = user_id usr, claim_email = Some (email usr),
                     claim_username = Some (username usr), iat = now,
                     exp_claim = now + accessExp, iss = issuer cfg, aud = audience cfg\<rparr>;
                  refreshPayload =
                    \<lparr>sub = user_id usr, claim_email = None, claim_username = None, iat = now,
                     exp_claim = now + refreshExp, iss = issuer cfg, aud = audience cfg\<rparr>;
                  accessTok = jwt_sign accessPayload (secret cfg);
                  refreshTok = jwt_sign refreshPayload (refreshSecret cfg)
              in case insert_session
                     \<lparr>session_id = uuid e ui, userId = user_id usr,
                      tokenHash = bcrypt_hash (jwt_first72 accessTok) 10 (salt e si),
                      refreshTokenHash =
                        Some (bcrypt_hash (jwt_first72 refreshTok) 10 (salt e (si + 1))),
                      deviceInfo = Option.bind sessionInfo si_deviceInfo,
                      ipAddress = Option.bind sessionInfo si_ipAddress,
                      userAgent = Option.bind sessionInfo si_userAgent,
                      expiresAt = (now + refreshExp) * 1000,
                      createdAt = nowMs e, lastUsedAt = nowMs e\<rparr> st of
                   Inl err \<Rightarrow> (Inl err, st)
                 | Inr st' \<Rightarrow>
                     (Inr \<lparr>accessToken = accessTok, refreshTokenOf = refreshTok,
                           expiresIn = accessExp\<rparr>, st'))))"

text \<open>\<^verbatim>\<open>verifyMfaCode\<close>: the placeholder of the source.\<close>

definition verifyMfaCode :: "nat \<Rightarrow> string \<Rightarrow> bool" where
  "verifyMfaCode uid code = (code = ''123456'')"

text \<open>
  \<^verbatim>\<open>register(data)\<close>. Neither lookup filters on \<^verbatim>\<open>deletedAt\<close>. The \<^verbatim>\<open>catch\<close> logs and rethrows,
  so it does not show. The new row takes the defaults of the schema for the columns the
  insert leaves out.
\<close>

definition register ::
  "Config \<Rightarrow> env \<Rightarrow> RegisterData \<Rightarrow> db \<Rightarrow> (error + userWithoutPassword \<times> TokenPair) \<times> db" where
  "register cfg e data st =
     (if length (take 1 (select_where (eq_sql (\<lambda>u. Some (email u)) (Some (reg_email data)))
                           (users st))) > 0
      then (Inl (AppError ''User already exists with this email'' 409 None), st)
      else if length (take 1 (select_where
                                (eq_sql (\<lambda>u. Some (username u)) (Some (reg_username data)))
                                (users st))) > 0
      then (Inl (AppError ''Username is already taken'' 409 None), st)
      else
        (let newUser =
               \<lparr>user_id = uuid e 0, username = reg_username data, email = reg_email data,
                passwordHash = bcrypt_hash (reg_password data) (rounds cfg) (salt e 0),
                displayName = Some (or_default (reg_displayName data) (reg_username data)),
                verified = False, mfaEnabled = False, deletedAt = None\<rparr>
         in case insert_user newUser st of
              Inl err \<Rightarrow> (Inl err, st)
            | Inr st1 \<Rightarrow>
               (case generateTokens cfg e 1 1 newUser None st1 of
                  (Inl err, st2) \<Rightarrow> (Inl err, st2)
                | (Inr tokens, st2) \<Rightarrow> (Inr (withoutPassword newUser, tokens), st2))))"

text \<open>
  \<^verbatim>\<open>login(credentials, sessionInfo)\<close>. The lookup is
  \<^verbatim>\<open>and(eq(users.email, credentials.email), eq(users.deletedAt, null))\<close>. Where the code passes
  \<^verbatim>\<open>credentials.mfaCode\<close> to \<^verbatim>\<open>verifyMfaCode\<close> it has tested it truthy, so
  \<open>or_default (cred_mfaCode credentials) []\<close> is the code given.
\<close>

definition login ::
  "Config \<Rightarrow> env \<Rightarrow> LoginCredentials \<Rightarrow> SessionInfo option \<Rightarrow> db
     \<Rightarrow> (error + userWithoutPassword \<times> TokenPair) \<times> db" where
  "login cfg e credentials sessionInfo st =
     (case first_row (select_where
                        (and_sql (eq_sql (\<lambda>u. Some (email u)) (Some (cred_email credentials)))
                                 (eq_sql deletedAt None))
                        (users st)) of
        None \<Rightarrow> (Inl (AppError ''Invalid credentials'' 401 None), st)
      | Some usr \<Rightarrow>
         (if \<not> bcrypt_compare (cred_password credentials) (passwordHash usr)
          then (Inl (AppError ''Invalid credentials'' 401 None), st)
          else if mfaEnabled usr \<and> \<not> truthy (cred_mfaCode credentials)
          then (Inl (AppError ''MFA code required'' 401 (Some [(''mfaRequired'', True)])), st)
          else if mfaEnabled usr \<and> truthy (cred_mfaCode credentials)
                  \<and> \<not> verifyMfaCode (user_id usr) (or_default (cred_mfaCode credentials) [])
          then (Inl (AppError ''Invalid MFA code'' 401 None), st)
          else
            (case generateTokens cfg e 0 0 usr sessionInfo st of
               (Inl err, st1) \<Rightarrow> (Inl err, st1)
             | (Inr tokens, st1) \<Rightarrow> (Inr (withoutPassword usr, tokens), st1))))"

text \<open>
  \<^verbatim>\<open>refreshToken(refreshToken)\<close>: first the body of the \<^verbatim>\<open>try\<close>, then the \<^verbatim>\<open>catch\<close>, which turns
  every exception into \<^verbatim>\<open>AppError('Invalid refresh token', 401)\<close>. The presented token is hashed
  with a salt of its own (salt 0) and the session is looked up by equality with that digest.
  \<^verbatim>\<open>generateTokens\<close> inserts a session row for the new pair (salts 1 and 2); the update then
  overwrites the digests of the row found, with two more salts. The lookup of the user does
  not filter on \<^verbatim>\<open>deletedAt\<close>.
\<close>

definition refreshToken_try :: "Config \<Rightarrow> env \<Rightarrow> jwt \<Rightarrow> db \<Rightarrow> (error + TokenPair) \<times> db" where
  "refreshToken_try cfg e tok st =
     (case jwt_verify tok (refreshSecret cfg) (nowMs e) of
        Inl err \<Rightarrow> (Inl err, st)
      | Inr payload \<Rightarrow>
         (case first_row (select_where
                            (and_sql (eq_sql (\<lambda>s. Some (userId s)) (Some (sub payload)))
                                     (eq_sql refreshTokenHash
                                        (Some (bcrypt_hash (jwt_first72 tok) 10
                                                 (salt e 0)))))
                            (userSessions st)) of
            None \<Rightarrow> (Inl (AppError ''Invalid refresh token'' 401 None), st)
          | Some sess \<Rightarrow>
             (if expiresAt sess < nowMs e
              then (Inl (AppError ''Invalid refresh token'' 401 None), st)
              else
                (case first_row (select_where
                                   (eq_sql (\<lambda>u. Some (user_id u)) (Some (sub payload)))
                                   (users st)) of
                   None \<Rightarrow> (Inl (AppError ''User not found'' 404 None), st)
                 | Some usr \<Rightarrow>
                    (case generateTokens cfg e 1 0 usr None st of
                       (Inl err, st1) \<Rightarrow> (Inl err, st1)
                     | (Inr tokens, st1) \<Rightarrow>
                        (Inr tokens,
                         st1\<lparr>userSessions :=
                               update_where
                                 (eq_sql (\<lambda>s. Some (session_id s)) (Some (session_id sess)))
                                 (\<lambda>s. s\<lparr>tokenHash :=
                                           bcrypt_hash (jwt_first72 (accessToken tokens)) 10
                                             (salt e 3),
                                         refreshTokenHash :=
                                           Some (bcrypt_hash
                                                   (jwt_first72 (refreshTokenOf tokens)) 10
                                                   (salt e 4)),
                                         lastUsedAt := nowMs e\<rparr>)
                                 (userSessions st1)\<rparr>))))))"

definition refreshToken :: "Config \<Rightarrow> env \<Rightarrow> jwt \<Rightarrow> db \<Rightarrow> (error + TokenPair) \<times> db" where
  "refreshToken cfg e tok st =
     (case refreshToken_try cfg e tok st of
        (Inl err, st1) \<Rightarrow> (Inl (AppError ''Invalid refresh token'' 401 None), st1)
      | (Inr tokens, st1) \<Rightarrow> (Inr tokens, st1))"


text \<open>
  \<^verbatim>\<open>verifyToken(token)\<close>: the body of the \<^verbatim>\<open>try\<close>, then the \<^verbatim>\<open>catch\<close>, which replaces the errors
  of jsonwebtoken by \<^verbatim>\<open>AppError('Invalid token', 401)\<close> and rethrows the others. The token is
  hashed with a fresh salt (salt 0) and the session is looked up by equality with that
  digest. Nothing is written.
\<close>

definition verifyToken_try :: "Config \<Rightarrow> env \<Rightarrow> jwt \<Rightarrow> db \<Rightarrow> error + JWTPayload" where
  "verifyToken_try cfg e tok st =
     (case jwt_verify tok (secret cfg) (nowMs e) of
        Inl err \<Rightarrow> Inl err
      | Inr payload \<Rightarrow>
         (case first_row (select_where
                            (and_sql (eq_sql (\<lambda>s. Some (userId s)) (Some (sub payload)))
                                     (eq_sql (\<lambda>s. Some (tokenHash s))
                                        (Some (bcrypt_hash (jwt_first72 tok) 10
                                                 (salt e 0)))))
                            (userSessions st)) of
            None \<Rightarrow> Inl (AppError ''Token expired or invalid'' 401 None)
          | Some sess \<Rightarrow>
             (if expiresAt sess < nowMs e
              then Inl (AppError ''Token expired or invalid'' 401 None)
              else Inr payload)))"

definition verifyToken :: "Config \<Rightarrow> env \<Rightarrow> jwt \<Rightarrow> db \<Rightarrow> error + JWTPayload" where
  "verifyToken cfg e tok st =
     (case verifyToken_try cfg e tok st of
        Inl err \<Rightarrow>
          (if is_JsonWebTokenError err then Inl (AppError ''Invalid token'' 401 None)
           else Inl err)
      | Inr payload \<Rightarrow> Inr payload)"

subsection \<open>A concrete deployment\<close>

text \<open>
  The configuration with the default lifetimes and names of \<^verbatim>\<open>config/index.ts\<close>, an environment
  whose salts and identifiers are all different, and the registration of the specification's
  scenario. \<open>registered_db\<close> is the database after that registration into the empty one (lemma
  \<open>register_alice\<close> below); its session row stores the access token under salt 101 and the
  refresh token under salt 102.
\<close>

definition cfg0 :: Config where
  "cfg0 = \<lparr>secret = ''access-secret-0123456789abcdef0123'',
           refreshSecret = ''refresh-secret-0123456789abcdef012'',
           accessExpiresIn = ''15m'', refreshExpiresIn = ''7d'',
           issuer = ''enrichment'', audience = ''enrichment-users'', rounds = 12\<rparr>"

definition fresh_env :: "int \<Rightarrow> nat \<Rightarrow> env" where
  "fresh_env t base = \<lparr>nowMs = t, salt = (\<lambda>i. base + i), uuid = (\<lambda>i. base + i)\<rparr>"

definition empty_db :: db where
  "empty_db = \<lparr>users = [], userSessions = []\<rparr>"

definition alice :: RegisterData where
  "alice = \<lparr>reg_username = ''alice'', reg_email = ''alice@x.com'',
            reg_password = ''pw123456789012345678901234567890'',
            reg_displayName = None, reg_inviteCode = None\<rparr>"

definition alice_credentials :: LoginCredentials where
  "alice_credentials = \<lparr>cred_email = ''alice@x.com'',
                        cred_password = ''pw123456789012345678901234567890'',
                        cred_mfaCode = None\<rparr>"

definition alice_payload :: JWTPayload where
  "alice_payload =
     \<lparr>sub = 100, claim_email = Some ''alice@x.com'', claim_username = Some ''alice'',
      iat = 1700000000, exp_claim = 1700000900, iss = ''enrichment'',
      aud = ''enrichment-users''\<rparr>"

definition alice_access :: jwt where
  "alice_access = Signed alice_payload ''access-secret-0123456789abcdef0123''"

definition alice_refresh :: jwt where
  "alice_refresh =
     Signed \<lparr>sub = 100, claim_email = None, claim_username = None,
             iat = 1700000000, exp_claim = 1700604800, iss = ''enrichment'',
             aud = ''enrichment-users''\<rparr> ''refresh-secret-0123456789abcdef012''"

definition alice_tokens :: TokenPair where
  "alice_tokens = \<lparr>accessToken = alice_access, refreshTokenOf = alice_refresh, expiresIn = 900\<rparr>"

definition alice_row :: user where
  "alice_row =
     \<lparr>user_id = 100, username = ''alice'', email = ''alice@x.com'',
      passwordHash = Digest 12 100 ''pw123456789012345678901234567890'',
      displayName = Some ''alice'', verified = False, mfaEnabled = False,
      deletedAt = None\<rparr>"

definition alice_session :: session where
  "alice_session =
     \<lparr>session_id = 101, userId = 100,
      tokenHash = bcrypt_hash (jwt_first72 alice_access) 10 101,
      refreshTokenHash = Some (bcrypt_hash (jwt_first72 alice_refresh) 10 102),
      deviceInfo = None, ipAddress = None, userAgent = None,
      expiresAt = 1700604800000, createdAt = 1700000000000,
      lastUsedAt = 1700000000000\<rparr>"

definition registered_db :: db where
  "registered_db = \<lparr>users = [alice_row], userSessions = [alice_session]\<rparr>"

text \<open>
  An environment whose salts are all \<open>s\<close>: the rare draw in which \<^verbatim>\<open>bcrypt.hash\<close> repeats the salt
  of a stored digest, the only one in which a lookup by digest finds a row.
\<close>

definition salted_env :: "int \<Rightarrow> nat \<Rightarrow> nat \<Rightarrow> env" where
  "salted_env t s base = \<lparr>nowMs = t, salt = (\<lambda>i. s), uuid = (\<lambda>i. base + i)\<rparr>"

text \<open>
  The token pair and the database after alice's refresh token has been rotated one minute
  after the registration, in the environment \<open>fresh_env 1700000060000 102\<close>: the lookup draws
  the stored salt 102 and finds the row, \<^verbatim>\<open>generateTokens\<close> inserts row 102 with the salts 103
  and 104, and the update writes digests under the salts 105 and 106 into row 101.
\<close>

definition rotated_access :: jwt where
  "rotated_access =
     Signed \<lparr>sub = 100, claim_email = Some ''alice@x.com'', claim_username = Some ''alice'',
             iat = 1700000060, exp_claim = 1700000960, iss = ''enrichment'',
             aud = ''enrichment-users''\<rparr> ''access-secret-0123456789abcdef0123''"

definition rotated_refresh :: jwt where
  "rotated_refresh =
     Signed \<lparr>sub = 100, claim_email = None, claim_username = None,
             iat = 1700000060, exp_claim = 1700604860, iss = ''enrichment'',
             aud = ''enrichment-users''\<rparr> ''refresh-secret-0123456789abcdef012''"

definition rotated_tokens :: TokenPair where
  "rotated_tokens =
     \<lparr>accessToken = rotated_access, refreshTokenOf = rotated_refresh, expiresIn = 900\<rparr>"

definition rotated_db :: db where
  "rotated_db =
     \<lparr>users = [alice_row],
      userSessions =
        [alice_session\<lparr>tokenHash := bcrypt_hash (jwt_first72 rotated_access) 10 105,
                       refreshTokenHash :=
                         Some (bcrypt_hash (jwt_first72 rotated_refresh) 10 106),
                       lastUsedAt := 1700000060000\<rparr>,
         \<lparr>session_id = 102, userId = 100,
          tokenHash = bcrypt_hash (jwt_first72 rotated_access) 10 103,
          refreshTokenHash = Some (bcrypt_hash (jwt_first72 rotated_refresh) 10 104),
          deviceInfo = None, ipAddress = None, userAgent = None,
          expiresAt = 1700604860000, createdAt = 1700000060000,
          lastUsedAt = 1700000060000\<rparr>]\<rparr>"

text \<open>The pair a refresh of alice's account issues two minutes after the registration.\<close>

definition reused_tokens :: TokenPair where
  "reused_tokens =
     \<lparr>accessToken =
        Signed (alice_payload\<lparr>iat := 1700000120, exp_claim := 1700001020\<rparr>) (secret cfg0),
      refreshTokenOf =
        Signed \<lparr>sub = 100, claim_email = None, claim_username = None,
                iat = 1700000120, exp_claim = 1700604920, iss = ''enrichment'',
                aud = ''enrichment-users''\<rparr> (refreshSecret cfg0),
      expiresIn = 900\<rparr>"

text \<open>An account with MFA enabled, and alice's account soft-deleted.\<close>

definition bob_row :: user where
  "bob_row =
     \<lparr>user_id = 7, username = ''bob'', email = ''bob@x.com'',
      passwordHash = Digest 12 55 ''correct horse battery staple'',
      displayName = Some ''Bob'', verified = True, mfaEnabled = True,
      deletedAt = None\<rparr>"

definition mfa_db :: db where
  "mfa_db = \<lparr>users = [bob_row], userSessions = []\<rparr>"

definition deleted_alice :: user where
  "deleted_alice = alice_row\<lparr>deletedAt := Some 1700000500000\<rparr>"

definition deleted_db :: db where
  "deleted_db = \<lparr>users = [deleted_alice], userSessions = [alice_session]\<rparr>"

section \<open>Properties\<close>

subsection \<open>Token strings\<close>

text \<open>
  The header as every token of the service carries it, and the 72 characters that begin
  every token of the account with id 100 (\<^verbatim>\<open>00000000-0000-0000-0000-000000000064\<close>).
\<close>

lemma base64url_jwt_header: "base64url jwt_header = ''eyJhbGciOiJIUzI1NiIsInR5cCI6IkpXVCJ9''"
  by (simp add: jwt_header_def b64_char_def)

lemma hex_fixed_numeral:
  "hex_fixed (numeral k) n = hex_fixed (pred_numeral k) (n div 16) @ [hex_digit (n mod 16)]"
proof -
  have "hex_fixed (numeral k) n = hex_fixed (Suc (pred_numeral k)) n"
    by (simp only: numeral_eq_Suc)
  then show ?thesis
    by simp
qed

lemma uuid_string_100: "uuid_string 100 = ''00000000-0000-0000-0000-000000000064''"
  by (simp add: uuid_string_def hex_fixed_numeral hex_digit_def)

lemma signed_first72_100:
  "signed_first72 100 =
     ''eyJhbGciOiJIUzI1NiIsInR5cCI6IkpXVCJ9.eyJzdWIiOiIwMDAwMDAwMC0wMDAwLTAwMDA''"
  by (simp add: signed_first72_def uuid_string_100 base64url_jwt_header b64_char_def)

lemma jwt_first72_Signed [simp]: "jwt_first72 (Signed payload k) = signed_first72 (sub payload)"
  by (simp add: jwt_first72_def)

lemma take_72_signed_first72 [simp]: "take 72 (signed_first72 uid) = signed_first72 uid"
  unfolding signed_first72_def by (simp only: take_take min.idem)

subsection \<open>Conditions and lookups\<close>

lemma eq_sql_null [simp]: "eq_sql col None r = None"
  by (simp add: eq_sql_def split: option.split)

lemma eq_sql_Some [simp]: "eq_sql (\<lambda>r. Some (f r)) (Some v) r = Some (f r = v)"
  by (simp add: eq_sql_def)

lemma and_sql_Some [simp]:
  "and_sql (\<lambda>r. Some (P r)) (\<lambda>r. Some (Q r)) r = Some (P r \<and> Q r)"
  by (auto simp add: and_sql_def)

lemma and_sql_True [simp]:
  "(and_sql c1 c2 r = Some True) = (c1 r = Some True \<and> c2 r = Some True)"
  by (auto simp add: and_sql_def)

lemma eq_sql_True [simp]: "(eq_sql col (Some v) r = Some True) = (col r = Some v)"
  by (auto simp add: eq_sql_def split: option.splits)

lemma and_sql_null_right: "and_sql c (eq_sql col None) r \<noteq> Some True"
  by (simp add: and_sql_def)

lemma select_where_null_empty: "select_where (and_sql c (eq_sql col None)) rows = []"
  by (simp add: select_where_def and_sql_null_right)

lemma select_where_eq:
  "select_where (eq_sql (\<lambda>r. Some (f r)) (Some v)) rows = filter (\<lambda>r. f r = v) rows"
  by (simp add: select_where_def)

lemma first_row_Nil [simp]: "first_row [] = None"
  by (simp add: first_row_def)

lemma first_row_Cons [simp]: "first_row (r # rs) = Some r"
  by (simp add: first_row_def)

lemma first_row_SomeD: "first_row rows = Some r \<Longrightarrow> r \<in> set rows"
  by (cases rows) simp_all

lemma first_row_selectD:
  "first_row (select_where c rows) = Some r \<Longrightarrow> r \<in> set rows \<and> c r = Some True"
  by (drule first_row_SomeD) (simp add: select_where_def)

lemma select_where_empty:
  "(select_where c rows = []) = (\<forall>r \<in> set rows. c r \<noteq> Some True)"
  by (simp add: select_where_def filter_empty_conv)

lemma select_after_delete: "select_where c (delete_where c rows) = []"
  by (simp add: select_where_def delete_where_def filter_empty_conv)

lemma ttl_15m: "parseTimeToSeconds ''15m'' = Some 900"
  by (simp add: parseTimeToSeconds_def parseInt_def is_ws_def digitval_def)

lemma ttl_7d: "parseTimeToSeconds ''7d'' = Some 604800"
  by (simp add: parseTimeToSeconds_def parseInt_def is_ws_def digitval_def)

lemmas scenario_defs =
  cfg0_def fresh_env_def empty_db_def alice_def alice_credentials_def alice_payload_def
  alice_access_def alice_refresh_def alice_tokens_def alice_row_def alice_session_def
  registered_db_def salted_env_def rotated_access_def rotated_refresh_def rotated_tokens_def
  rotated_db_def reused_tokens_def bob_row_def mfa_db_def deleted_alice_def deleted_db_def

lemma register_alice:
  "register cfg0 (fresh_env 1700000000000 100) alice empty_db =
     (Inr (withoutPassword alice_row, alice_tokens), registered_db)"
  by (simp add: register_def generateTokens_def insert_user_def insert_session_def
      select_where_def ttl_15m ttl_7d Let_def bcrypt_hash_def jwt_sign_def or_default_def
      scenario_defs)

text \<open>
  The lookup of \<^verbatim>\<open>login\<close> compares \<^verbatim>\<open>deleted_at\<close> with \<^verbatim>\<open>NULL\<close> by \<^verbatim>\<open>=\<close>, which is true of no row:
  whatever the table holds, \<^verbatim>\<open>login\<close> takes the branch of the unknown account.
\<close>

lemma login_finds_no_account:
  "login cfg e credentials sessionInfo st =
     (Inl (AppError ''Invalid credentials'' 401 None), st)"
  by (simp add: login_def select_where_null_empty)

subsection \<open>Login after registration\<close>

text \<open>
  Claim C1: after a valid registration, \<^verbatim>\<open>login\<close> with the same email and password succeeds
  and returns a token pair whose access token has the new account's id as subject.
  The code does not do this. At the registration of the specification's scenario (alice
  into the empty database, which succeeds and creates account 100), the login that follows
  with the same credentials is refused with \<^verbatim>\<open>AppError('Invalid credentials', 401)\<close> and writes
  nothing: the lookup \<^verbatim>\<open>eq(users.deletedAt, null)\<close> matches no row.
\<close>

theorem login_after_register_rejected:
  "register cfg0 (fresh_env 1700000000000 100) alice empty_db =
     (Inr (withoutPassword alice_row, alice_tokens), registered_db)
   \<and> pub_id (withoutPassword alice_row) = 100
   \<and> login cfg0 (fresh_env 1700000001000 200) alice_credentials None registered_db =
       (Inl (AppError ''Invalid credentials'' 401 None), registered_db)"
  by (simp add: register_alice login_finds_no_account withoutPassword_def alice_row_def)

subsection \<open>The two failures of login\<close>

text \<open>
  The two lemmas follow the branches of \<^verbatim>\<open>login\<close>: a row the lookup returns has the email
  asked for, whatever else the condition requires of it.
\<close>

lemma login_unknown_email:
  assumes "cred_email c \<notin> set (map email (users st))"
  shows "login cfg e c si st = (Inl (AppError ''Invalid credentials'' 401 None), st)"
proof (cases "first_row (select_where
                 (and_sql (eq_sql (\<lambda>u. Some (email u)) (Some (cred_email c)))
                          (eq_sql deletedAt None))
                 (users st))")
  case None
  then show ?thesis
    by (simp add: login_def)
next
  case (Some usr)
  then have "usr \<in> set (users st)" and "email usr = cred_email c"
    by (auto simp del: eq_sql_null dest!: first_row_selectD)
  with assms show ?thesis
    by force
qed

lemma login_wrong_password:
  assumes "\<forall>u \<in> set (users st). email u = cred_email c
             \<longrightarrow> \<not> bcrypt_compare (cred_password c) (passwordHash u)"
  shows "login cfg e c si st = (Inl (AppError ''Invalid credentials'' 401 None), st)"
proof (cases "first_row (select_where
                 (and_sql (eq_sql (\<lambda>u. Some (email u)) (Some (cred_email c)))
                          (eq_sql deletedAt None))
                 (users st))")
  case None
  then show ?thesis
    by (simp add: login_def)
next
  case (Some usr)
  then have "usr \<in> set (users st)" and "email usr = cred_email c"
    by (auto simp del: eq_sql_null dest!: first_row_selectD)
  with assms have "\<not> bcrypt_compare (cred_password c) (passwordHash usr)"
    by blast
  with Some show ?thesis
    by (simp add: login_def)
qed

text \<open>
  Claim C6: \<^verbatim>\<open>login\<close> fails in the same way when no account has the email and when the account
  exists but the password does not verify: both runs return
  \<^verbatim>\<open>AppError('Invalid credentials', 401)\<close> with no details and leave the database as it was, so
  the caller cannot tell them apart.
\<close>

theorem login_failures_indistinguishable:
  assumes "cred_email c1 \<notin> set (map email (users st1))"
    and "cred_email c2 \<in> set (map email (users st2))"
    and "\<forall>u \<in> set (users st2). email u = cred_email c2
           \<longrightarrow> \<not> bcrypt_compare (cred_password c2) (passwordHash u)"
  shows "login cfg e1 c1 si1 st1 = (Inl (AppError ''Invalid credentials'' 401 None), st1)
       \<and> login cfg e2 c2 si2 st2 = (Inl (AppError ''Invalid credentials'' 401 None), st2)
       \<and> fst (login cfg e1 c1 si1 st1) = fst (login cfg e2 c2 si2 st2)"
  using assms by (simp add: login_unknown_email login_wrong_password)

theorem login_failures_indistinguishable_witness:
  "fst (login cfg0 (fresh_env 1700000001000 200)
          \<lparr>cred_email = ''carol@x.com'', cred_password = ''pw'', cred_mfaCode = None\<rparr>
          None registered_db)
   = fst (login cfg0 (fresh_env 1700000002000 300)
            \<lparr>cred_email = ''alice@x.com'', cred_password = ''wrong'', cred_mfaCode = None\<rparr>
            None registered_db)"
  using login_failures_indistinguishable
    [of "\<lparr>cred_email = ''carol@x.com'', cred_password = ''pw'', cred_mfaCode = None\<rparr>"
        registered_db
        "\<lparr>cred_email = ''alice@x.com'', cred_password = ''wrong'', cred_mfaCode = None\<rparr>"
        registered_db cfg0 "fresh_env 1700000001000 200" None
        "fresh_env 1700000002000 300" None]
  by (simp add: registered_db_def alice_row_def bcrypt_compare_def bcrypt_hash_def)

subsection \<open>Registration with a taken email\<close>

text \<open>
  Claim C8: a registration whose email already belongs to a row of \<^verbatim>\<open>users\<close> fails with the
  conflict \<^verbatim>\<open>AppError('User already exists with this email', 409)\<close>, whatever its username, and
  the database is unchanged: no account row and no session row is created.
\<close>

theorem register_duplicate_email_conflict:
  assumes "reg_email data \<in> set (map email (users st))"
  shows "register cfg e data st =
           (Inl (AppError ''User already exists with this email'' 409 None), st)"
proof -
  from assms obtain u where "u \<in> set (users st)" and "email u = reg_email data"
    by auto
  then have "filter (\<lambda>r. email r = reg_email data) (users st) \<noteq> []"
    by (auto simp add: filter_empty_conv)
  then have "take 1 (filter (\<lambda>r. email r = reg_email data) (users st)) \<noteq> []"
    by simp
  then show ?thesis
    by (simp add: register_def select_where_eq)
qed

theorem register_duplicate_email_conflict_witness:
  "''alice@x.com'' \<in> set (map email (users registered_db))
   \<and> ''alice2'' \<notin> set (map username (users registered_db))
   \<and> register cfg0 (fresh_env 1700000005000 500)
        \<lparr>reg_username = ''alice2'', reg_email = ''alice@x.com'',
         reg_password = ''another-password'', reg_displayName = None,
         reg_inviteCode = None\<rparr> registered_db
      = (Inl (AppError ''User already exists with this email'' 409 None), registered_db)"
  using register_duplicate_email_conflict
    [of "\<lparr>reg_username = ''alice2'', reg_email = ''alice@x.com'',
          reg_password = ''another-password'', reg_displayName = None,
          reg_inviteCode = None\<rparr>" registered_db cfg0 "fresh_env 1700000005000 500"]
  by (simp add: registered_db_def alice_row_def)

subsection \<open>Verification of access tokens\<close>

text \<open>
  \<^verbatim>\<open>verifyToken\<close> looks the session up by equality with a digest it has just computed under a
  fresh salt, so it can only succeed when that salt repeats the salt of a stored digest.
\<close>

lemma verifyToken_needs_stored_salt:
  assumes "verifyToken cfg e tok st = Inr payload"
  shows "salt e 0 \<in> set (map (\<lambda>s. digest_salt (tokenHash s)) (userSessions st))"
proof -
  from assms obtain sess where
    "first_row (select_where
        (and_sql (eq_sql (\<lambda>s. Some (userId s)) (Some (sub payload)))
                 (eq_sql (\<lambda>s. Some (tokenHash s))
                    (Some (bcrypt_hash (jwt_first72 tok) 10 (salt e 0)))))
        (userSessions st)) = Some sess"
    by (auto simp add: verifyToken_def verifyToken_try_def
        split: sum.splits option.splits if_splits)
  then have "sess \<in> set (userSessions st)" and "digest_salt (tokenHash sess) = salt e 0"
    by (auto dest!: first_row_selectD simp add: bcrypt_hash_def)
  then show ?thesis
    by force
qed

text \<open>
  Claim C3: for an access token issued by \<^verbatim>\<open>register\<close> or \<^verbatim>\<open>login\<close> whose session record exists
  and is unexpired, \<^verbatim>\<open>verifyToken\<close> decodes the token, finds the session record by the hash of
  the access token and returns the token's claims.
  The code does not do this. One second after alice's registration the access token it
  returned decodes under the access secret, and its session row is in the table and has not
  expired; \<^verbatim>\<open>verifyToken\<close>, hashing the token with a salt of its own (200, the row was written
  with 101), finds no row and throws \<^verbatim>\<open>AppError('Token expired or invalid', 401)\<close>.
\<close>

theorem verifyToken_rejects_issued_token:
  "register cfg0 (fresh_env 1700000000000 100) alice empty_db =
     (Inr (withoutPassword alice_row, alice_tokens), registered_db)
   \<and> accessToken alice_tokens = alice_access
   \<and> jwt_verify alice_access (secret cfg0) 1700000001000 = Inr alice_payload
   \<and> userSessions registered_db = [alice_session]
   \<and> userId alice_session = sub alice_payload
   \<and> tokenHash alice_session = bcrypt_hash (jwt_first72 alice_access) 10 101
   \<and> \<not> expiresAt alice_session < 1700000001000
   \<and> verifyToken cfg0 (fresh_env 1700000001000 200) alice_access registered_db
      = Inl (AppError ''Token expired or invalid'' 401 None)"
  by (simp add: register_alice)
     (simp add: scenario_defs verifyToken_def verifyToken_try_def select_where_def
        bcrypt_hash_def)



text \<open>
  Claim C5: an access token whose embedded expiry has passed is refused by \<^verbatim>\<open>verifyToken\<close>
  whatever the session table holds: \<^verbatim>\<open>jwt.verify\<close> throws before the table is read, and the
  \<^verbatim>\<open>catch\<close> turns the exception into \<^verbatim>\<open>AppError('Invalid token', 401)\<close>. The expiry has passed
  when the clock, in whole seconds, has reached \<^verbatim>\<open>exp\<close>.
\<close>

theorem verifyToken_rejects_expired:
  assumes "exp_claim payload \<le> nowMs e div 1000"
  shows "verifyToken cfg e (Signed payload key) st = Inl (AppError ''Invalid token'' 401 None)"
  using assms by (simp add: verifyToken_def verifyToken_try_def)

theorem verifyToken_rejects_expired_witness:
  "exp_claim alice_payload \<le> 1700000900000 div 1000
   \<and> userSessions registered_db = [alice_session]
   \<and> userId alice_session = sub alice_payload
   \<and> tokenHash alice_session
       = bcrypt_hash (jwt_first72 alice_access) 10 (salt (salted_env 1700000900000 101 900) 0)
   \<and> \<not> expiresAt alice_session < 1700000900000
   \<and> verifyToken cfg0 (salted_env 1700000900000 101 900) alice_access registered_db
      = Inl (AppError ''Invalid token'' 401 None)"
  using verifyToken_rejects_expired [of alice_payload "salted_env 1700000900000 101 900" cfg0
      "''access-secret-0123456789abcdef0123''" registered_db]
  by (simp add: scenario_defs bcrypt_hash_def)

subsection \<open>Multi-factor login\<close>

text \<open>
  Claim C7: for an account with MFA enabled, \<^verbatim>\<open>login\<close> with the correct password and no MFA
  code fails with the distinguishable \<^verbatim>\<open>AppError('MFA code required', 401, { mfaRequired: true })\<close>,
  and with a code that does not verify it fails with \<^verbatim>\<open>AppError('Invalid MFA code', 401)\<close>.
  The code does not do this. For the account bob (MFA enabled, not deleted, the password
  verifies against the stored hash), both logins are refused with the generic
  \<^verbatim>\<open>AppError('Invalid credentials', 401)\<close>: the lookup finds no row (see claim C1), so the
  branches that test \<^verbatim>\<open>mfaEnabled\<close> are not reached.
\<close>

theorem login_mfa_account_rejected:
  "users mfa_db = [bob_row] \<and> mfaEnabled bob_row \<and> deletedAt bob_row = None
   \<and> bcrypt_compare ''correct horse battery staple'' (passwordHash bob_row)
   \<and> login cfg0 (fresh_env 1700000001000 200)
        \<lparr>cred_email = ''bob@x.com'', cred_password = ''correct horse battery staple'',
         cred_mfaCode = None\<rparr> None mfa_db
      = (Inl (AppError ''Invalid credentials'' 401 None), mfa_db)
   \<and> \<not> verifyMfaCode (user_id bob_row) ''000000''
   \<and> login cfg0 (fresh_env 1700000001000 200)
        \<lparr>cred_email = ''bob@x.com'', cred_password = ''correct horse battery staple'',
         cred_mfaCode = Some ''000000''\<rparr> None mfa_db
      = (Inl (AppError ''Invalid credentials'' 401 None), mfa_db)"
  by (simp add: login_finds_no_account bob_row_def mfa_db_def bcrypt_compare_def
      bcrypt_hash_def verifyMfaCode_def)

subsection \<open>Signing secrets\<close>




subsection \<open>Refresh-token rotation\<close>

text \<open>
  Like \<^verbatim>\<open>verifyToken\<close>, \<^verbatim>\<open>refreshToken\<close> finds a session only by a digest computed under a fresh
  salt. When no stored refresh digest carries that salt, the call fails in the lookup, with
  the error of the \<^verbatim>\<open>catch\<close>, and has written nothing.
\<close>

lemma refreshToken_fresh_salt:
  assumes "Some (salt e 0) \<notin> set (map refresh_salt (userSessions st))"
  shows "refreshToken cfg e tok st = (Inl (AppError ''Invalid refresh token'' 401 None), st)"
proof -
  have "refreshTokenHash s \<noteq> Some (bcrypt_hash (jwt_first72 tok) 10 (salt e 0))"
    if "s \<in> set (userSessions st)" for s
  proof
    assume "refreshTokenHash s = Some (bcrypt_hash (jwt_first72 tok) 10 (salt e 0))"
    then have "refresh_salt s = Some (salt e 0)"
      by (simp add: refresh_salt_def bcrypt_hash_def)
    with that assms show False
      by force
  qed
  then have "select_where
          (and_sql (eq_sql (\<lambda>s. Some (userId s)) (Some uid))
                   (eq_sql refreshTokenHash
                      (Some (bcrypt_hash (jwt_first72 tok) 10 (salt e 0)))))
          (userSessions st) = []" for uid
    by (simp add: select_where_empty)
  then show ?thesis
    by (simp add: refreshToken_def refreshToken_try_def split: sum.split)
qed

text \<open>What a successful call has done to the session table.\<close>

lemma generateTokens_success:
  assumes "generateTokens cfg e si ui usr sinfo st = (Inr tokens, st1)"
  shows "\<exists>row. userSessions st1 = userSessions st @ [row]
           \<and> refresh_salt row = Some (salt e (si + 1))"
  using assms
  by (auto simp add: generateTokens_def Let_def insert_session_def refresh_salt_def
      bcrypt_hash_def split: option.splits sum.splits if_splits)

lemma refreshToken_success:
  assumes "refreshToken cfg e tok st = (Inr tokens, st')"
  shows "\<exists>sess usr st1.
           sess \<in> set (userSessions st)
         \<and> refreshTokenHash sess = Some (bcrypt_hash (jwt_first72 tok) 10 (salt e 0))
         \<and> generateTokens cfg e 1 0 usr None st = (Inr tokens, st1)
         \<and> userSessions st' =
             update_where (eq_sql (\<lambda>s. Some (session_id s)) (Some (session_id sess)))
               (\<lambda>s. s\<lparr>tokenHash :=
                        bcrypt_hash (jwt_first72 (accessToken tokens)) 10 (salt e 3),
                       refreshTokenHash :=
                         Some (bcrypt_hash (jwt_first72 (refreshTokenOf tokens)) 10
                                 (salt e 4)),
                       lastUsedAt := nowMs e\<rparr>)
               (userSessions st1)"
  using assms
  by (auto simp add: refreshToken_def refreshToken_try_def
      split: sum.splits option.splits if_splits prod.splits
      dest!: first_row_selectD) blast

lemma single_carrier:
  assumes "length (filter P xs) \<le> 1" and "x \<in> set xs" and "P x" and "y \<in> set xs" and "P y"
  shows "y = x"
proof -
  from assms have "x \<in> set (filter P xs)" and "y \<in> set (filter P xs)"
    by simp_all
  with assms(1) show ?thesis
    by (cases "filter P xs") (auto split: if_splits)
qed

lemma rotate_alice:
  "refreshToken cfg0 (fresh_env 1700000060000 102) alice_refresh registered_db
     = (Inr rotated_tokens, rotated_db)"
  by (simp add: refreshToken_def refreshToken_try_def generateTokens_def insert_session_def
      select_where_def update_where_def ttl_15m ttl_7d Let_def bcrypt_hash_def jwt_sign_def
      scenario_defs)

text \<open>
  Claim C2: once a refresh token has been used successfully in \<^verbatim>\<open>refreshToken\<close>, a second call
  presenting it fails with \<^verbatim>\<open>AppError('Invalid refresh token', 401)\<close>, and the reuse attempt
  revokes the associated session.
  Both halves fail. Alice's refresh token is rotated one minute after the registration.
  Presented again a minute later, it is accepted when bcrypt draws salt 106, the salt of the
  refresh digest the rotation wrote into row 101: the digest of the new token is also the
  digest of the old one, since both tokens begin with the same 72 characters. When bcrypt
  draws the unused salt 400 the call is refused, and the database is the one the rotation
  left, with both session rows of the account: \<^verbatim>\<open>refreshToken\<close> deletes nothing on any path.
\<close>

theorem refresh_reuse_accepted_or_unrevoked_counterexample:
  "refreshToken cfg0 (fresh_env 1700000060000 102) alice_refresh registered_db
     = (Inr rotated_tokens, rotated_db)
   \<and> refreshTokenOf rotated_tokens \<noteq> alice_refresh
   \<and> fst (refreshToken cfg0 (salted_env 1700000120000 106 400) alice_refresh rotated_db)
     = Inr reused_tokens
   \<and> refreshToken cfg0 (fresh_env 1700000120000 400) alice_refresh rotated_db
     = (Inl (AppError ''Invalid refresh token'' 401 None), rotated_db)
   \<and> map session_id (userSessions rotated_db) = [101, 102]
   \<and> map userId (userSessions rotated_db) = [100, 100]"
proof -
  have differ: "refreshTokenOf rotated_tokens \<noteq> alice_refresh"
    by (simp add: scenario_defs)
  have again:
    "fst (refreshToken cfg0 (salted_env 1700000120000 106 400) alice_refresh rotated_db)
       = Inr reused_tokens"
    by (simp add: refreshToken_def refreshToken_try_def generateTokens_def insert_session_def
        select_where_def update_where_def ttl_15m ttl_7d Let_def bcrypt_hash_def
        jwt_sign_def scenario_defs)
  have refused:
    "refreshToken cfg0 (fresh_env 1700000120000 400) alice_refresh rotated_db
       = (Inl (AppError ''Invalid refresh token'' 401 None), rotated_db)"
    by (simp add: refreshToken_def refreshToken_try_def select_where_def bcrypt_hash_def
        scenario_defs)
  have rows: "map session_id (userSessions rotated_db) = [101, 102]"
    "map userId (userSessions rotated_db) = [100, 100]"
    by (simp_all add: rotated_db_def alice_session_def)
  from rotate_alice differ again refused rows show ?thesis
    by simp
qed

text \<open>
  Claim C2, amended: once a refresh token has been used successfully in \<^verbatim>\<open>refreshToken\<close>, a
  second call presenting it fails with \<^verbatim>\<open>AppError('Invalid refresh token', 401)\<close> whenever the
  salt bcrypt draws for its lookup is not one of the two that the rotation drew for the new
  refresh digests, and is either the salt under which the first call found the session
  (carried by one row only) or a salt that no refresh digest carried before the rotation:
  the rotation has overwritten the digest that admitted the token. The reuse attempt
  revokes nothing: the database stays as the rotation left it, one session row longer than
  before the rotation.
\<close>

theorem refresh_reuse_fails_without_revocation:
  assumes first: "refreshToken cfg e1 tok st = (Inr tokens, st')"
    and new: "salt e2 0 \<noteq> salt e1 2" "salt e2 0 \<noteq> salt e1 4"
    and old: "(salt e2 0 = salt e1 0
               \<and> length (filter (\<lambda>s. refresh_salt s = Some (salt e1 0)) (userSessions st)) \<le> 1)
              \<or> Some (salt e2 0) \<notin> set (map refresh_salt (userSessions st))"
  shows "refreshToken cfg e2 tok st' =
           (Inl (AppError ''Invalid refresh token'' 401 None), st')
       \<and> length (userSessions st') = Suc (length (userSessions st))"
proof -
  from refreshToken_success [OF first] obtain sess usr st1 where
    sess: "sess \<in> set (userSessions st)"
      "refreshTokenHash sess = Some (bcrypt_hash (jwt_first72 tok) 10 (salt e1 0))"
    and gen: "generateTokens cfg e1 1 0 usr None st = (Inr tokens, st1)"
    and upd: "userSessions st' =
             update_where (eq_sql (\<lambda>s. Some (session_id s)) (Some (session_id sess)))
               (\<lambda>s. s\<lparr>tokenHash :=
                        bcrypt_hash (jwt_first72 (accessToken tokens)) 10 (salt e1 3),
                       refreshTokenHash :=
                         Some (bcrypt_hash (jwt_first72 (refreshTokenOf tokens)) 10
                                 (salt e1 4)),
                       lastUsedAt := nowMs e1\<rparr>)
               (userSessions st1)"
    by blast
  from sess(2) have carrier: "refresh_salt sess = Some (salt e1 0)"
    by (simp add: refresh_salt_def bcrypt_hash_def)
  let ?f = "\<lambda>s. if session_id s = session_id sess
                 then s\<lparr>tokenHash :=
                          bcrypt_hash (jwt_first72 (accessToken tokens)) 10 (salt e1 3),
                        refreshTokenHash :=
                          Some (bcrypt_hash (jwt_first72 (refreshTokenOf tokens)) 10
                                  (salt e1 4)),
                        lastUsedAt := nowMs e1\<rparr>
                 else s"
  from generateTokens_success [OF gen] obtain row where
    rows: "userSessions st1 = userSessions st @ [row]"
    and "refresh_salt row = Some (salt e1 (1 + 1))"
    by blast
  then have row: "refresh_salt row = Some (salt e1 2)"
    by (simp add: numeral_2_eq_2)
  have "refresh_salt s \<noteq> Some (salt e2 0)" if "s \<in> set (userSessions st')" for s
  proof -
    from that upd rows have "s \<in> set (map ?f (userSessions st @ [row]))"
      by (simp add: update_where_def)
    then obtain r where rmem: "r \<in> set (userSessions st @ [row])" and s: "s = ?f r"
      unfolding set_map by blast
    from rmem have r: "r \<in> set (userSessions st) \<or> r = row"
      by auto
    show ?thesis
    proof (cases "session_id r = session_id sess")
      case True
      with s new(2) show ?thesis
        by (simp add: refresh_salt_def bcrypt_hash_def)
    next
      case False
      with s have sr: "s = r" by simp
      from r show ?thesis
      proof
        assume "r = row"
        with sr row new(1) show ?thesis
          by simp
      next
        assume mem: "r \<in> set (userSessions st)"
        show ?thesis
        proof
          assume carried: "refresh_salt s = Some (salt e2 0)"
          from old show False
          proof
            assume same: "salt e2 0 = salt e1 0
               \<and> length (filter (\<lambda>s. refresh_salt s = Some (salt e1 0)) (userSessions st)) \<le> 1"
            with carried sr have "refresh_salt r = Some (salt e1 0)"
              by simp
            with same sess(1) carrier mem have "r = sess"
              by (auto intro: single_carrier
                  [where P = "\<lambda>s. refresh_salt s = Some (salt e1 0)" and xs = "userSessions st"])
            with False show False
              by simp
          next
            assume "Some (salt e2 0) \<notin> set (map refresh_salt (userSessions st))"
            with carried sr mem show False
              by force
          qed
        qed
      qed
    qed
  qed
  then have "Some (salt e2 0) \<notin> set (map refresh_salt (userSessions st'))"
    by force
  then have "refreshToken cfg e2 tok st' =
          (Inl (AppError ''Invalid refresh token'' 401 None), st')"
    by (rule refreshToken_fresh_salt)
  moreover from upd rows have "length (userSessions st') = Suc (length (userSessions st))"
    by (simp add: update_where_def)
  ultimately show ?thesis
    by simp
qed

theorem refresh_reuse_fails_without_revocation_witness:
  "refreshToken cfg0 (fresh_env 1700000060000 102) alice_refresh registered_db
     = (Inr rotated_tokens, rotated_db)
   \<and> salt (salted_env 1700000120000 102 400) 0 = salt (fresh_env 1700000060000 102) 0
   \<and> map refresh_salt (userSessions registered_db) = [Some 102]
   \<and> map refresh_salt (userSessions rotated_db) = [Some 106, Some 104]
   \<and> refreshToken cfg0 (salted_env 1700000120000 102 400) alice_refresh rotated_db
     = (Inl (AppError ''Invalid refresh token'' 401 None), rotated_db)
   \<and> length (userSessions rotated_db) = 2"
proof -
  have before: "map refresh_salt (userSessions registered_db) = [Some 102]"
    by (simp add: registered_db_def alice_session_def refresh_salt_def bcrypt_hash_def)
  have after: "map refresh_salt (userSessions rotated_db) = [Some 106, Some 104]"
    by (simp add: rotated_db_def alice_session_def refresh_salt_def bcrypt_hash_def)
  have single:
    "length (filter (\<lambda>s. refresh_salt s = Some 102) (userSessions registered_db)) \<le> 1"
    by (simp add: registered_db_def)
  have len: "length (userSessions registered_db) = 1"
    by (simp add: registered_db_def)
  from refresh_reuse_fails_without_revocation
    [of cfg0 "fresh_env 1700000060000 102" alice_refresh registered_db rotated_tokens
        rotated_db "salted_env 1700000120000 102 400"]
    rotate_alice before after single len
  show ?thesis
    by (simp add: salted_env_def fresh_env_def)
qed

subsection \<open>Soft-deleted accounts\<close>

text \<open>
  \<^verbatim>\<open>refreshToken\<close> looks the user up by id alone: with the salt that matches the stored digest,
  the refresh token of the soft-deleted account is rotated like any other.
\<close>

lemma refresh_soft_deleted_account:
  "deletedAt deleted_alice \<noteq> None
   \<and> fst (refreshToken cfg0 (salted_env 1700000600000 102 300) alice_refresh deleted_db)
      = Inr \<lparr>accessToken =
                Signed (alice_payload\<lparr>iat := 1700000600, exp_claim := 1700001500\<rparr>)
                  (secret cfg0),
              refreshTokenOf =
                Signed \<lparr>sub = 100, claim_email = None, claim_username = None,
                        iat = 1700000600, exp_claim = 1700605400, iss = ''enrichment'',
                        aud = ''enrichment-users''\<rparr> (refreshSecret cfg0),
              expiresIn = 900\<rparr>"
  by (simp add: refreshToken_def refreshToken_try_def generateTokens_def insert_session_def
      select_where_def ttl_15m ttl_7d Let_def bcrypt_hash_def jwt_sign_def scenario_defs)

text \<open>
  Claim C10: an account with a non-null deletion timestamp is excluded from every lookup:
  \<^verbatim>\<open>login\<close> does not find it, \<^verbatim>\<open>refreshToken\<close> fails for it, and the uniqueness checks of
  \<^verbatim>\<open>register\<close> do not count it as an existing user.
  The last part fails: with alice's account soft-deleted, a registration under her email
  and a new username is refused with the 409 of the taken email, and a registration under
  her username and a new email with the 409 of the taken username.
\<close>

theorem register_counts_soft_deleted_counterexample:
  "users deleted_db = [deleted_alice]
   \<and> deletedAt deleted_alice = Some 1700000500000
   \<and> register cfg0 (fresh_env 1700000600000 500)
        \<lparr>reg_username = ''alice2'', reg_email = ''alice@x.com'',
         reg_password = ''another-password'', reg_displayName = None,
         reg_inviteCode = None\<rparr> deleted_db
      = (Inl (AppError ''User already exists with this email'' 409 None), deleted_db)
   \<and> register cfg0 (fresh_env 1700000600000 500)
        \<lparr>reg_username = ''alice'', reg_email = ''alice2@x.com'',
         reg_password = ''another-password'', reg_displayName = None,
         reg_inviteCode = None\<rparr> deleted_db
      = (Inl (AppError ''Username is already taken'' 409 None), deleted_db)"
  by (simp add: register_def select_where_def scenario_defs)

text \<open>
  Claim C10, amended: for an account with a non-null deletion timestamp, the lookup of \<^verbatim>\<open>login\<close>
  does not return it and \<^verbatim>\<open>login\<close> with its email fails with
  \<^verbatim>\<open>AppError('Invalid credentials', 401)\<close>; the uniqueness checks of \<^verbatim>\<open>register\<close> do count it: a
  registration with its email fails with the 409 of the taken email, and one with its
  username (and an unused email) with the 409 of the taken username, the database unchanged.
  This is what the unique constraints of the table (over all rows) require.
\<close>

theorem soft_deleted_account_lookups:
  assumes "u \<in> set (users st)" and "deletedAt u \<noteq> None"
  shows "u \<notin> set (select_where
                    (and_sql (eq_sql (\<lambda>v. Some (email v)) (Some (email u)))
                             (eq_sql deletedAt None))
                    (users st))
       \<and> login cfg e \<lparr>cred_email = email u, cred_password = pw, cred_mfaCode = code\<rparr> si st
           = (Inl (AppError ''Invalid credentials'' 401 None), st)
       \<and> (reg_email data = email u \<longrightarrow>
            register cfg e data st
              = (Inl (AppError ''User already exists with this email'' 409 None), st))
       \<and> (reg_username data = username u \<and> reg_email data \<notin> set (map email (users st)) \<longrightarrow>
            register cfg e data st
              = (Inl (AppError ''Username is already taken'' 409 None), st))"
proof (intro conjI impI)
  show "u \<notin> set (select_where
                    (and_sql (eq_sql (\<lambda>v. Some (email v)) (Some (email u)))
                             (eq_sql deletedAt None))
                    (users st))"
    by (simp add: select_where_null_empty)
  show "login cfg e \<lparr>cred_email = email u, cred_password = pw, cred_mfaCode = code\<rparr> si st
          = (Inl (AppError ''Invalid credentials'' 401 None), st)"
    by (rule login_finds_no_account)
next
  assume "reg_email data = email u"
  with assms(1) have "filter (\<lambda>r. email r = reg_email data) (users st) \<noteq> []"
    by (auto simp add: filter_empty_conv)
  then have "take 1 (filter (\<lambda>r. email r = reg_email data) (users st)) \<noteq> []"
    by simp
  then show "register cfg e data st
               = (Inl (AppError ''User already exists with this email'' 409 None), st)"
    by (simp add: register_def select_where_eq)
next
  assume a: "reg_username data = username u \<and> reg_email data \<notin> set (map email (users st))"
  then have "filter (\<lambda>r. email r = reg_email data) (users st) = []"
    by (force simp add: filter_empty_conv)
  moreover from a assms(1) have "filter (\<lambda>r. username r = reg_username data) (users st) \<noteq> []"
    by (auto simp add: filter_empty_conv)
  then have "take 1 (filter (\<lambda>r. username r = reg_username data) (users st)) \<noteq> []"
    by simp
  ultimately show "register cfg e data st
               = (Inl (AppError ''Username is already taken'' 409 None), st)"
    by (simp add: register_def select_where_eq)
qed

theorem soft_deleted_account_lookups_witness:
  "deleted_alice \<in> set (users deleted_db)
   \<and> deletedAt deleted_alice \<noteq> None
   \<and> login cfg0 (fresh_env 1700000600000 500)
        \<lparr>cred_email = ''alice@x.com'', cred_password = ''pw123456789012345678901234567890'',
         cred_mfaCode = None\<rparr> None deleted_db
      = (Inl (AppError ''Invalid credentials'' 401 None), deleted_db)
   \<and> register cfg0 (fresh_env 1700000600000 500)
        \<lparr>reg_username = ''alice2'', reg_email = ''alice@x.com'',
         reg_password = ''another-password'', reg_displayName = None,
         reg_inviteCode = None\<rparr> deleted_db
      = (Inl (AppError ''User already exists with this email'' 409 None), deleted_db)"
proof -
  have mem: "deleted_alice \<in> set (users deleted_db)"
    by (simp add: deleted_db_def)
  have del: "deletedAt deleted_alice \<noteq> None"
    by (simp add: deleted_alice_def)
  have mail: "email deleted_alice = ''alice@x.com''"
    by (simp add: deleted_alice_def alice_row_def)
  from soft_deleted_account_lookups [OF mem del, of cfg0 "fresh_env 1700000600000 500"
      "''pw123456789012345678901234567890''" None None
      "\<lparr>reg_username = ''alice2'', reg_email = ''alice@x.com'',
        reg_password = ''another-password'', reg_displayName = None,
        reg_inviteCode = None\<rparr>"] mem del
  show ?thesis
    by (simp add: mail)
qed

end
